theory Spec2Isabelle
  imports Main
begin

section \<open>JavaScript values used by the frontend\<close>

text \<open>
  The frontend is React code. A component's \<^verbatim>\<open>useState\<close> cells become the fields of a
  record, every handler becomes a function from the state before to the state after, and
  what a handler sends out (socket emits, HTTP requests, timers) is appended to a log
  kept in the state. A JavaScript value that may be \<^verbatim>\<open>null\<close> or \<^verbatim>\<open>undefined\<close> is an
  option; \<^verbatim>\<open>Date.now()\<close> and the outcome of an awaited request are arguments.
\<close>

text \<open>Truthiness of a string that may be absent: \<^verbatim>\<open>null\<close>, \<^verbatim>\<open>undefined\<close> and \<^verbatim>\<open>''\<close> are falsy.\<close>

definition truthy :: "string option \<Rightarrow> bool" where
  "truthy v = (case v of None \<Rightarrow> False | Some t \<Rightarrow> t \<noteq> [])"

text \<open>\<^verbatim>\<open>v || d\<close> on strings.\<close>

definition or_else :: "string option \<Rightarrow> string \<Rightarrow> string" where
  "or_else v d = (case v of None \<Rightarrow> d | Some t \<Rightarrow> if t = [] then d else t)"

text \<open>
  A HOL string holds the UTF-8 bytes of the JavaScript string. \<^verbatim>\<open>String.prototype.trim\<close>
  strips the white space and line terminator code points of ECMAScript at both ends:
  U+0009 to U+000D, U+0020, U+00A0, U+1680, U+2000 to U+200A, U+2028, U+2029, U+202F,
  U+205F, U+3000 and U+FEFF. \<open>ws_tokens\<close> lists their encodings, of one, two or three
  bytes.
\<close>

definition ws_tokens :: "string list" where
  "ws_tokens =
     [[CHR 0x09], [CHR 0x0A], [CHR 0x0B], [CHR 0x0C], [CHR 0x0D], [CHR 0x20],
      [CHR 0xC2, CHR 0xA0],
      [CHR 0xE1, CHR 0x9A, CHR 0x80],
      [CHR 0xE2, CHR 0x80, CHR 0x80], [CHR 0xE2, CHR 0x80, CHR 0x81],
      [CHR 0xE2, CHR 0x80, CHR 0x82], [CHR 0xE2, CHR 0x80, CHR 0x83],
      [CHR 0xE2, CHR 0x80, CHR 0x84], [CHR 0xE2, CHR 0x80, CHR 0x85],
      [CHR 0xE2, CHR 0x80, CHR 0x86], [CHR 0xE2, CHR 0x80, CHR 0x87],
      [CHR 0xE2, CHR 0x80, CHR 0x88], [CHR 0xE2, CHR 0x80, CHR 0x89],
      [CHR 0xE2, CHR 0x80, CHR 0x8A],
      [CHR 0xE2, CHR 0x80, CHR 0xA8], [CHR 0xE2, CHR 0x80, CHR 0xA9],
      [CHR 0xE2, CHR 0x80, CHR 0xAF],
      [CHR 0xE2, CHR 0x81, CHR 0x9F],
      [CHR 0xE3, CHR 0x80, CHR 0x80],
      [CHR 0xEF, CHR 0xBB, CHR 0xBF]]"

text \<open>The bytes \<open>w\<close> encode one white space code point.\<close>

definition is_ws :: "string \<Rightarrow> bool" where
  "is_ws w = (w \<in> set ws_tokens)"

text \<open>Remove the code points accepted by \<open>P\<close> from the front of a string. No encoding is
  a prefix of another, so at most one of the three tests succeeds.\<close>

fun strip :: "(string \<Rightarrow> bool) \<Rightarrow> string \<Rightarrow> string" where
  "strip P (a # b # c # rest) =
     (if P [a] then strip P (b # c # rest)
      else if P [a, b] then strip P (c # rest)
      else if P [a, b, c] then strip P rest
      else a # b # c # rest)"
| "strip P [a, b] = (if P [a] then strip P [b] else if P [a, b] then [] else [a, b])"
| "strip P [a] = (if P [a] then [] else [a])"
| "strip P [] = []"

text \<open>\<^verbatim>\<open>trim\<close>: strip the front, then the back (the front of the reversed string, where an
  encoding appears reversed).\<close>

definition trim :: "string \<Rightarrow> string" where
  "trim t = rev (strip (\<lambda>w. is_ws (rev w)) (rev (strip is_ws t)))"

text \<open>\<^verbatim>\<open>!message || !message.trim()\<close> for a string \<^verbatim>\<open>message\<close>.\<close>

definition blank :: "string \<Rightarrow> bool" where
  "blank t = (t = [] \<or> trim t = [])"

fun starts_with :: "string \<Rightarrow> string \<Rightarrow> bool" where
  "starts_with t [] = True"
| "starts_with [] (c # cs) = False"
| "starts_with (d # ds) (c # cs) = (d = c \<and> starts_with ds cs)"

text \<open>\<^verbatim>\<open>String.prototype.includes\<close>.\<close>

fun includes_str :: "string \<Rightarrow> string \<Rightarrow> bool" where
  "includes_str [] needle = (needle = [])"
| "includes_str (d # ds) needle = (starts_with (d # ds) needle \<or> includes_str ds needle)"

text \<open>The rejection value of an axios call, as far as the handlers read it:
  \<^verbatim>\<open>error.code\<close>, \<^verbatim>\<open>error.response?.data?.error\<close> and \<^verbatim>\<open>error.message\<close>.\<close>

record axios_error =
  err_code :: "string option"
  response_data_error :: "string option"
  err_message :: "string option"

section \<open>The application shell (App)\<close>

record persona =
  name :: "string option"
  current_role :: "string option"
  career_path :: "string option"

text \<open>The body of the analyze-resume response, as far as the shell reads it.\<close>

record resume_response =
  success :: bool
  session_id :: "string option"
  rr_persona :: "persona option"
  rr_error :: "string option"

record app_state =
  currentStep :: string
  sessionId :: "string option"
  resumeAnalysis :: "resume_response option"
  persona :: "persona option"
  isLoading :: bool
  app_error :: "string option"

definition app_init :: app_state where
  "app_init = \<lparr>currentStep = ''welcome'', sessionId = None, resumeAnalysis = None,
     persona = None, isLoading = False, app_error = None\<rparr>"

definition handleResumeUpload :: "resume_response \<Rightarrow> app_state \<Rightarrow> app_state" where
  "handleResumeUpload d s =
     (if success d \<and> truthy (session_id d)
      then s\<lparr>sessionId := session_id d, resumeAnalysis := Some d,
             persona := rr_persona d, currentStep := ''dashboard''\<rparr>
      else s\<lparr>app_error := Some ''Failed to process resume. Missing session or persona.''\<rparr>)"

definition handleStartChat :: "app_state \<Rightarrow> app_state" where
  "handleStartChat s =
     (if \<not> truthy (sessionId s) \<or> persona s = None
      then s\<lparr>app_error := Some ''Please upload your resume first'', currentStep := ''resume''\<rparr>
      else s\<lparr>currentStep := ''chat''\<rparr>)"

definition handleBack :: "app_state \<Rightarrow> app_state" where
  "handleBack s =
     (if currentStep s = ''chat'' then s\<lparr>currentStep := ''dashboard''\<rparr>
      else if currentStep s = ''dashboard'' then s\<lparr>currentStep := ''resume''\<rparr>
      else s\<lparr>currentStep := ''welcome''\<rparr>)"

definition handleNext :: "app_state \<Rightarrow> app_state" where
  "handleNext s =
     (if currentStep s = ''welcome'' then s\<lparr>currentStep := ''resume''\<rparr>
      else if currentStep s = ''resume'' \<and> resumeAnalysis s \<noteq> None
        then s\<lparr>currentStep := ''dashboard''\<rparr>
      else if currentStep s = ''dashboard'' \<and> truthy (sessionId s) \<and> persona s \<noteq> None
        then s\<lparr>currentStep := ''chat''\<rparr>
      else s)"

text \<open>The \<^verbatim>\<open>onNext\<close> closure handed to the resume upload step.\<close>

definition resume_onNext :: "app_state \<Rightarrow> app_state" where
  "resume_onNext s =
     (if resumeAnalysis s \<noteq> None then s\<lparr>currentStep := ''dashboard''\<rparr>
      else s\<lparr>app_error := Some ''Please upload and analyze your resume first''\<rparr>)"

text \<open>The navbar's \<^verbatim>\<open>onConnect\<close> and the close button of the shell's error banner.\<close>

definition navbar_onConnect :: "app_state \<Rightarrow> app_state" where
  "navbar_onConnect s = s\<lparr>currentStep := ''resume''\<rparr>"

definition app_dismiss_error :: "app_state \<Rightarrow> app_state" where
  "app_dismiss_error s = s\<lparr>app_error := None\<rparr>"

datatype app_event =
    ResumeUploaded resume_response
  | StartChat
  | Back
  | Next
  | ResumeNext
  | NavbarConnect
  | AppDismissError

fun app_step :: "app_event \<Rightarrow> app_state \<Rightarrow> app_state" where
  "app_step (ResumeUploaded d) s = handleResumeUpload d s"
| "app_step StartChat s = handleStartChat s"
| "app_step Back s = handleBack s"
| "app_step Next s = handleNext s"
| "app_step ResumeNext s = resume_onNext s"
| "app_step NavbarConnect s = navbar_onConnect s"
| "app_step AppDismissError s = app_dismiss_error s"

text \<open>The shell renders the chat component only at step \<^verbatim>\<open>'chat'\<close> with a session and a
  persona.\<close>

definition chat_rendered :: "app_state \<Rightarrow> bool" where
  "chat_rendered s = (currentStep s = ''chat'' \<and> truthy (sessionId s) \<and> persona s \<noteq> None)"

subsection \<open>Step sequences\<close>

fun next_in_sequence :: "string list \<Rightarrow> string \<Rightarrow> string option" where
  "next_in_sequence (a # b # rest) x = (if x = a then Some b else next_in_sequence (b # rest) x)"
| "next_in_sequence [a] x = None"
| "next_in_sequence [] x = None"

fun prev_in_sequence :: "string list \<Rightarrow> string \<Rightarrow> string option" where
  "prev_in_sequence (a # b # rest) x = (if x = b then Some a else prev_in_sequence (b # rest) x)"
| "prev_in_sequence [a] x = None"
| "prev_in_sequence [] x = None"

text \<open>The step names the shell assigns to \<^verbatim>\<open>currentStep\<close>, in the order of \<^verbatim>\<open>handleNext\<close>.\<close>

definition wizard_steps :: "string list" where
  "wizard_steps = [''welcome'', ''resume'', ''dashboard'', ''chat'']"

text \<open>The sequence as the specification words it.\<close>

definition spec_wizard_steps :: "string list" where
  "spec_wizard_steps = [''upload'', ''resume'', ''career pick'', ''dashboard'', ''chat'']"

text \<open>What \<^verbatim>\<open>handleNext\<close> requires before it leaves a step.\<close>

definition step_data_present :: "app_state \<Rightarrow> bool" where
  "step_data_present s =
     (if currentStep s = ''resume'' then resumeAnalysis s \<noteq> None
      else if currentStep s = ''dashboard'' then truthy (sessionId s) \<and> persona s \<noteq> None
      else True)"

section \<open>The chat component (FuturisticChat)\<close>

record chat_message =
  role :: string
  content :: "string option"
  timestamp :: nat

text \<open>The props the component reads.\<close>

record chat_props =
  p_sessionId :: "string option"
  p_persona :: "persona option"

text \<open>What the component sends out: a socket emit (event name and payload), an axios POST
  (url, JSON body, timeout in ms) and a \<^verbatim>\<open>setTimeout\<close> that clears the error (delay in
  ms). Payloads are lists of key and value.\<close>

datatype effect =
    SocketEmit string "(string \<times> string option) list"
  | HttpPost string "(string \<times> string option) list" nat
  | ClearErrorAfter nat

text \<open>\<^verbatim>\<open>socketRef\<close> is \<^verbatim>\<open>None\<close> until socket.io-client has loaded; afterwards it holds the
  socket's \<^verbatim>\<open>connected\<close> flag, which the library sets on connect and disconnect.\<close>

record chat_state =
  messages :: "chat_message list"
  isConnected :: bool
  isTyping :: bool
  error :: "string option"
  connectionStatus :: string
  showQuickQuestions :: bool
  socketRef :: "bool option"
  effects :: "effect list"

text \<open>The data object of a socket event, as far as the handlers read it.\<close>

record socket_data =
  response :: "string option"
  status :: "string option"
  data_error :: "string option"
  data_message :: "string option"

text \<open>The body of the chat endpoint's response.\<close>

record chat_response =
  chat_success :: bool
  chat_reply :: "string option"
  chat_error :: "string option"

datatype http_outcome = HttpResponse chat_response | HttpFailure axios_error

definition API_URL :: string where
  "API_URL = ''http://localhost:5000/api''"

definition persona_field :: "(persona \<Rightarrow> string option) \<Rightarrow> persona option \<Rightarrow> string option" where
  "persona_field f p = (case p of None \<Rightarrow> None | Some q \<Rightarrow> f q)"

definition welcome_text :: "persona \<Rightarrow> string" where
  "welcome_text p =
     [CHR 0xF0, CHR 0x9F, CHR 0x8C, CHR 0x9F] @ '' Welcome to the future, ''
     @ or_else (name p) ''Friend''
     @ ''! I'm you from 10 years ahead, now a ''
     @ or_else (current_role p) ''successful professional''
     @ ''. I've traveled through time to share everything I've learned on this incredible journey. I remember the uncertainty you feel now, the excitement, the fear - all of it. But here I am, 10 years later, and I can tell you: the journey is absolutely worth every step. What's on your mind today? What would you like to know about your future?''"

definition chat_initial :: chat_state where
  "chat_initial = \<lparr>messages = [], isConnected = False, isTyping = False, error = None,
     connectionStatus = ''connecting'', showQuickQuestions = True, socketRef = None,
     effects = []\<rparr>"

text \<open>The mount effect. \<^verbatim>\<open>initializeSocket\<close> only starts the dynamic import here; the socket
  exists from \<open>socket_loaded\<close> on.\<close>

definition chat_mount :: "chat_props \<Rightarrow> nat \<Rightarrow> chat_state" where
  "chat_mount pr now =
     (let s1 = chat_initial\<lparr>connectionStatus :=
                 (if \<not> truthy (p_sessionId pr) then ''no-session'' else ''connecting'')\<rparr>
      in case p_persona pr of
           Some p \<Rightarrow>
             if truthy (p_sessionId pr)
             then s1\<lparr>messages := [\<lparr>role = ''assistant'', content = Some (welcome_text p),
                                    timestamp = now\<rparr>],
                     connectionStatus := ''ready''\<rparr>
             else s1
         | None \<Rightarrow> s1)"

definition socket_loaded :: "chat_state \<Rightarrow> chat_state" where
  "socket_loaded s = s\<lparr>socketRef := Some False\<rparr>"

definition socket_load_failed :: "chat_state \<Rightarrow> chat_state" where
  "socket_load_failed s = s\<lparr>isConnected := False, connectionStatus := ''ready''\<rparr>"

subsection \<open>Socket listeners\<close>

definition on_connect :: "chat_props \<Rightarrow> chat_state \<Rightarrow> chat_state" where
  "on_connect pr s =
     (let s1 = s\<lparr>isConnected := True, connectionStatus := ''connected'', error := None,
                 socketRef := map_option (\<lambda>c. True) (socketRef s)\<rparr>
      in if truthy (p_sessionId pr)
         then s1\<lparr>effects := effects s1 @ [SocketEmit ''join_session''
                                            [(''session_id'', p_sessionId pr)]]\<rparr>
         else s1)"

definition on_disconnect :: "chat_state \<Rightarrow> chat_state" where
  "on_disconnect s = s\<lparr>isConnected := False, connectionStatus := ''ready'',
                       socketRef := map_option (\<lambda>c. False) (socketRef s)\<rparr>"

definition on_connect_error :: "chat_state \<Rightarrow> chat_state" where
  "on_connect_error s = s\<lparr>isConnected := False, connectionStatus := ''ready''\<rparr>"

definition on_ai_response :: "nat \<Rightarrow> socket_data \<Rightarrow> chat_state \<Rightarrow> chat_state" where
  "on_ai_response now d s =
     s\<lparr>isTyping := False,
       messages := messages s @ [\<lparr>role = ''assistant'', content = response d,
                                  timestamp = now\<rparr>],
       error := None\<rparr>"

definition on_typing :: "socket_data \<Rightarrow> chat_state \<Rightarrow> chat_state" where
  "on_typing d s = s\<lparr>isTyping := (status d = Some ''start'')\<rparr>"

definition on_error :: "socket_data \<Rightarrow> chat_state \<Rightarrow> chat_state" where
  "on_error d s =
     s\<lparr>error := Some (or_else (data_error d) ''An error occurred. Please try again.''),
       isTyping := False\<rparr>"

text \<open>The listeners registered by \<^verbatim>\<open>initializeSocket\<close>, by event name. An event with any
  other name has no listener.\<close>

definition deliver :: "chat_props \<Rightarrow> nat \<Rightarrow> string \<Rightarrow> socket_data \<Rightarrow> chat_state \<Rightarrow> chat_state" where
  "deliver pr now ev d s =
     (if ev = ''connect'' then on_connect pr s
      else if ev = ''disconnect'' then on_disconnect s
      else if ev = ''connect_error'' then on_connect_error s
      else if ev = ''ai_response'' then on_ai_response now d s
      else if ev = ''typing'' then on_typing d s
      else if ev = ''error'' then on_error d s
      else s)"

subsection \<open>Sending\<close>

definition handleSendError :: "axios_error \<Rightarrow> chat_state \<Rightarrow> chat_state" where
  "handleSendError e s =
     s\<lparr>isTyping := False,
       error := Some
         (if err_code e = Some ''ECONNABORTED'' then ''Request timed out. Please try again.''
          else if truthy (response_data_error e) then the (response_data_error e)
          else if (case err_message e of None \<Rightarrow> False | Some m \<Rightarrow> includes_str m ''Network Error'')
            then ''Connection error. Please check your internet and try again.''
          else ''Unable to send message. Please try again.''),
       effects := effects s @ [ClearErrorAfter 5000]\<rparr>"

text \<open>\<^verbatim>\<open>sendViaHttp\<close>: the POST, then what follows the \<^verbatim>\<open>await\<close>. The outcome of the request
  and the time of its completion are arguments.\<close>

definition sendViaHttp :: "chat_props \<Rightarrow> string \<Rightarrow> http_outcome \<Rightarrow> nat \<Rightarrow> chat_state \<Rightarrow> chat_state" where
  "sendViaHttp pr message outcome now s =
     (let s1 = s\<lparr>effects := effects s @
                  [HttpPost (API_URL @ ''/chat'')
                     [(''message'', Some message), (''session_id'', p_sessionId pr)] 15000]\<rparr>
      in case outcome of
           HttpResponse r \<Rightarrow>
             (if chat_success r \<and> truthy (chat_reply r)
              then s1\<lparr>messages := messages s1 @ [\<lparr>role = ''assistant'', content = chat_reply r,
                                                   timestamp = now\<rparr>],
                      error := None\<rparr>
              else s1\<lparr>error := Some (or_else (chat_error r) ''Failed to get response'')\<rparr>)
             \<lparr>isTyping := False\<rparr>
         | HttpFailure e \<Rightarrow> handleSendError e s1)"

text \<open>\<^verbatim>\<open>handleSendMessage\<close>. \<open>now\<close> is the time of the call, \<open>outcome\<close> and \<open>later\<close> are the
  result and completion time of the HTTP request, read only on the fallback path.\<close>

definition handleSendMessage ::
  "chat_props \<Rightarrow> nat \<Rightarrow> string \<Rightarrow> http_outcome \<Rightarrow> nat \<Rightarrow> chat_state \<Rightarrow> chat_state" where
  "handleSendMessage pr now message outcome later s =
     (if blank message then s
      else if \<not> truthy (p_sessionId pr)
        then s\<lparr>error := Some ''Session not found. Please upload your resume first.''\<rparr>
      else
        let s1 = s\<lparr>showQuickQuestions := False,
                    messages := messages s @ [\<lparr>role = ''user'', content = Some message,
                                               timestamp = now\<rparr>],
                    isTyping := True,
                    error := None\<rparr>
        in if socketRef s1 = Some True
           then s1\<lparr>effects := effects s1 @
                      [SocketEmit ''message''
                         [(''message'', Some message), (''session_id'', p_sessionId pr),
                          (''career'', Some (or_else (persona_field career_path (p_persona pr))
                                               ''software_engineer''))]]\<rparr>
           else sendViaHttp pr message outcome later s1)"

text \<open>The error banner: rendered while \<^verbatim>\<open>error\<close> is truthy, showing its text; its close
  button and the timer of \<open>handleSendError\<close> both set \<^verbatim>\<open>error\<close> to \<^verbatim>\<open>null\<close>.\<close>

definition error_banner :: "chat_state \<Rightarrow> string option" where
  "error_banner s = (if truthy (error s) then error s else None)"

definition banner_close :: "chat_state \<Rightarrow> chat_state" where
  "banner_close s = s\<lparr>error := None\<rparr>"

datatype chat_event =
    SocketLoaded
  | SocketLoadFailed
  | SocketEvent string socket_data
  | Send string http_outcome nat
  | BannerClose
  | ErrorTimerFired

fun chat_step :: "chat_props \<Rightarrow> nat \<Rightarrow> chat_event \<Rightarrow> chat_state \<Rightarrow> chat_state" where
  "chat_step pr now SocketLoaded s = socket_loaded s"
| "chat_step pr now SocketLoadFailed s = socket_load_failed s"
| "chat_step pr now (SocketEvent ev d) s = deliver pr now ev d s"
| "chat_step pr now (Send message outcome later) s = handleSendMessage pr now message outcome later s"
| "chat_step pr now BannerClose s = banner_close s"
| "chat_step pr now ErrorTimerFired s = banner_close s"

text \<open>Every entry has one of the two roles.\<close>

definition roles_ok :: "chat_message list \<Rightarrow> bool" where
  "roles_ok ms = list_all (\<lambda>m. role m = ''user'' \<or> role m = ''assistant'') ms"

section \<open>Shell and chat component together\<close>

text \<open>The chat component exists while the shell renders it; it gets the shell's session id
  and persona as props and is mounted afresh each time the shell enters the chat step.\<close>

record ui_state =
  app :: app_state
  chat :: "chat_state option"

datatype ui_event = AppEvent app_event | ChatEvent chat_event

definition props_of :: "app_state \<Rightarrow> chat_props" where
  "props_of a = \<lparr>p_sessionId = sessionId a, p_persona = persona a\<rparr>"

fun ui_step :: "nat \<Rightarrow> ui_event \<Rightarrow> ui_state \<Rightarrow> ui_state" where
  "ui_step now (AppEvent e) u =
     (let a = app_step e (app u)
      in \<lparr>app = a,
          chat = (if chat_rendered a
                  then (case chat u of
                          Some c \<Rightarrow> if chat_rendered (app u) then Some c
                                    else Some (chat_mount (props_of a) now)
                        | None \<Rightarrow> Some (chat_mount (props_of a) now))
                  else None)\<rparr>)"
| "ui_step now (ChatEvent e) u =
     (case chat u of
        None \<Rightarrow> u
      | Some c \<Rightarrow> u\<lparr>chat := Some (chat_step (props_of (app u)) now e c)\<rparr>)"

section \<open>The resume upload component (FuturisticResumeUpload)\<close>

text \<open>A selected file, as far as the handler reads it: \<^verbatim>\<open>file.type\<close> and \<^verbatim>\<open>file.size\<close>.\<close>

record upload_file =
  file_type :: string
  file_size :: nat

text \<open>What the component sends out: the multipart POST (url, file, career goal, timeout in
  ms), the call of the parent's \<^verbatim>\<open>onResumeUpload\<close>, and the timer that resets the progress
  bar (delay in ms).\<close>

datatype upload_effect =
    AnalyzeRequest string upload_file string nat
  | NotifyParent resume_response
  | ResetProgressAfter nat

record upload_state =
  up_resumeAnalysis :: "resume_response option"
  isAnalyzing :: bool
  dragActive :: bool
  uploadProgress :: nat
  up_error :: "string option"
  progressInterval :: bool
  up_effects :: "upload_effect list"

datatype upload_outcome = UploadResponse resume_response | UploadFailure axios_error

definition allowedTypes :: "string list" where
  "allowedTypes = [''application/pdf'',
     ''application/vnd.openxmlformats-officedocument.wordprocessingml.document'',
     ''text/plain'']"

definition ANALYZE_RESUME :: string where
  "ANALYZE_RESUME = ''http://localhost:5000/api'' @ ''/analyze-resume''"

definition max_file_size :: nat where
  "max_file_size = 10 * 1024 * 1024"

text \<open>
  \<^verbatim>\<open>handleFileUpload\<close>. The endpoint is \<^verbatim>\<open>API_CONFIG.ENDPOINTS.ANALYZE_RESUME\<close> of the
  configuration module, passed as the argument \<open>endpoint\<close>. \<open>outcome\<close> is what the awaited
  POST yields, \<open>ticks\<close> the number of times the 200 ms progress interval has run by then.
  The interval is cleared after a response only; a rejected request leaves it running.
\<close>

definition handleFileUpload ::
  "string \<Rightarrow> upload_file list \<Rightarrow> upload_outcome \<Rightarrow> nat \<Rightarrow> upload_state \<Rightarrow> upload_state" where
  "handleFileUpload endpoint files outcome ticks s =
     (case files of
        [] \<Rightarrow> s
      | file # others \<Rightarrow>
          if file_type file \<notin> set allowedTypes
            then s\<lparr>up_error := Some ''Please upload a PDF, DOCX, or TXT file''\<rparr>
          else if file_size file > max_file_size
            then s\<lparr>up_error := Some ''File size must be less than 10MB''\<rparr>
          else
            let s1 = s\<lparr>isAnalyzing := True, uploadProgress := 0, up_error := None\<rparr>;
                s2 = s1\<lparr>progressInterval := True,
                        up_effects := up_effects s1 @
                          [AnalyzeRequest endpoint file ''software_engineer'' 30000],
                        uploadProgress := min (10 * ticks) 90\<rparr>;
                s3 = (case outcome of
                        UploadResponse r \<Rightarrow>
                          (let s4 = s2\<lparr>progressInterval := False, uploadProgress := 100\<rparr>
                           in if success r
                              then s4\<lparr>up_resumeAnalysis := Some r,
                                      up_effects := up_effects s4 @ [NotifyParent r]\<rparr>
                              else s4\<lparr>up_error := Some (or_else (rr_error r) ''Analysis failed'')\<rparr>)
                      | UploadFailure e \<Rightarrow>
                          s2\<lparr>up_error := Some
                            (if truthy (response_data_error e) then the (response_data_error e)
                             else if err_code e = Some ''ECONNABORTED''
                               then ''Request timeout. Please try again.''
                             else if (case err_message e of None \<Rightarrow> False
                                      | Some m \<Rightarrow> includes_str m ''Network Error'')
                               then ''Network error. Please check your connection and try again.''
                             else ''Failed to analyze resume. Please check your connection and try again.'')\<rparr>)
            in s3\<lparr>isAnalyzing := False,
                  up_effects := up_effects s3 @ [ResetProgressAfter 1000]\<rparr>)"

definition analyze_requests :: "upload_effect list \<Rightarrow> upload_effect list" where
  "analyze_requests es = filter (\<lambda>e. case e of AnalyzeRequest u f g t \<Rightarrow> True | _ \<Rightarrow> False) es"

section \<open>The tabbed interface (FutureSelfInterface): chat over a socket with timers\<close>

record fsi_message =
  message :: "string option"
  sender :: string
  msg_id :: nat
  msg_timestamp :: nat
  msg_chatMode :: string
  msg_aiPersonality :: string

text \<open>What a pending \<^verbatim>\<open>setTimeout\<close> will run: the 20 s response timeout, the 5 s check that
  only logs, or the simulated reply of the branch without a socket.\<close>

datatype timer_action = ResponseTimeout | CheckWaiting | FallbackReply string

text \<open>A pending timer. Its callback was created in the render in which \<^verbatim>\<open>sendMessage\<close>
  ran and calls the \<^verbatim>\<open>addMessage\<close> of that render, so it carries the chat mode and the
  personality of that moment.\<close>

record timer =
  timer_id :: nat
  due :: nat
  action :: timer_action
  timer_chatMode :: string
  timer_aiPersonality :: string

text \<open>
  The chat part of the component's state, the two handles it keeps on \<^verbatim>\<open>window\<close>, and the
  browser's side: the clock (ms), the pending timers and the next timer id (ids are
  positive). \<open>socket\<close> is the \<^verbatim>\<open>socket\<close> prop: \<^verbatim>\<open>None\<close> without a socket, otherwise its
  \<^verbatim>\<open>connected\<close> flag; the prop is the same object for the life of the component. The
  socket listeners are registered by an effect that depends on the prop only, so they
  run once, after the first render, and keep calling the \<^verbatim>\<open>addMessage\<close> of that render:
  \<open>listener_chatMode\<close> and \<open>listener_aiPersonality\<close> are the chat mode and personality that
  \<^verbatim>\<open>addMessage\<close> closed over, which later selections do not change.
\<close>

record fsi_state =
  fsi_messages :: "fsi_message list"
  messageInput :: string
  fsi_isTyping :: bool
  messageHistory :: "fsi_message list"
  messageCount :: nat
  lastActivity :: nat
  chatMode :: string
  aiPersonality :: string
  listener_chatMode :: string
  listener_aiPersonality :: string
  currentTimeoutId :: "nat option"
  checkTimeoutId :: "nat option"
  clock :: nat
  timers :: "timer list"
  next_timer_id :: nat
  socket :: "bool option"
  emitted :: "effect list"

record fsi_props =
  fp_sessionId :: "string option"
  fp_conversationId :: "string option"
  fp_selectedCareer :: "string option"

definition fsi_initial :: "bool option \<Rightarrow> fsi_state" where
  "fsi_initial sock = \<lparr>fsi_messages = [], messageInput = [], fsi_isTyping = False,
     messageHistory = [], messageCount = 0, lastActivity = 0, chatMode = ''normal'',
     aiPersonality = ''encouraging'', listener_chatMode = ''normal'',
     listener_aiPersonality = ''encouraging'', currentTimeoutId = None, checkTimeoutId = None,
     clock = 0, timers = [], next_timer_id = 1, socket = sock, emitted = []\<rparr>"

definition setTimeout :: "timer_action \<Rightarrow> nat \<Rightarrow> fsi_state \<Rightarrow> nat \<times> fsi_state" where
  "setTimeout act delay s =
     (next_timer_id s,
      s\<lparr>timers := timers s @ [\<lparr>timer_id = next_timer_id s, due = clock s + delay, action = act,
                                timer_chatMode = chatMode s,
                                timer_aiPersonality = aiPersonality s\<rparr>],
        next_timer_id := Suc (next_timer_id s)\<rparr>)"

definition clearTimeout :: "nat \<Rightarrow> fsi_state \<Rightarrow> fsi_state" where
  "clearTimeout i s = s\<lparr>timers := filter (\<lambda>t. timer_id t \<noteq> i) (timers s)\<rparr>"

text \<open>A timer handle on \<^verbatim>\<open>window\<close> is truthy when it is set and not 0.\<close>

definition handle_set :: "nat option \<Rightarrow> bool" where
  "handle_set h = (case h of None \<Rightarrow> False | Some i \<Rightarrow> i \<noteq> 0)"

text \<open>\<^verbatim>\<open>addMessage\<close>. \<open>mode\<close> and \<open>personality\<close> are the \<^verbatim>\<open>chatMode\<close> and \<^verbatim>\<open>aiPersonality\<close> of the
  render whose \<^verbatim>\<open>addMessage\<close> is called; the lists and the counter are updated from their
  current values.\<close>

definition addMessage :: "string \<Rightarrow> string \<Rightarrow> string option \<Rightarrow> string \<Rightarrow> fsi_state \<Rightarrow> fsi_state" where
  "addMessage mode personality text who s =
     (let m = \<lparr>message = text, sender = who, msg_id = clock s, msg_timestamp = clock s,
               msg_chatMode = mode, msg_aiPersonality = personality\<rparr>
      in s\<lparr>fsi_messages := fsi_messages s @ [m],
           messageHistory := messageHistory s @ [m],
           messageCount := Suc (messageCount s),
           lastActivity := clock s\<rparr>)"

definition timeout_text :: string where
  "timeout_text = ''I'm taking longer than usual to respond. This might be due to high server load. Please try asking me something else or wait a moment.''"

definition fallback_responses :: "string list" where
  "fallback_responses =
     [''That's a great question! The journey has been challenging but rewarding. I've learned so much about technology and grown both personally and professionally.'',
      ''I remember asking myself that same question 10 years ago. The path wasn't always clear, but persistence paid off.'',
      ''Looking back, I can see how each decision led me to where I am today. What specific aspect interests you most?'',
      ''The industry has changed so much since I started. Let me share what I've learned along the way.'']"

definition clear_current :: "fsi_state \<Rightarrow> fsi_state" where
  "clear_current s =
     (if handle_set (currentTimeoutId s)
      then (clearTimeout (the (currentTimeoutId s)) s)\<lparr>currentTimeoutId := None\<rparr>
      else s)"

definition clear_check :: "fsi_state \<Rightarrow> fsi_state" where
  "clear_check s =
     (if handle_set (checkTimeoutId s)
      then (clearTimeout (the (checkTimeoutId s)) s)\<lparr>checkTimeoutId := None\<rparr>
      else s)"

definition handleReceiveMessage :: "socket_data \<Rightarrow> fsi_state \<Rightarrow> fsi_state" where
  "handleReceiveMessage d s =
     (addMessage (listener_chatMode s) (listener_aiPersonality s)
        (data_message d) ''future-self'' (clear_check (clear_current s)))
       \<lparr>fsi_isTyping := False\<rparr>"

definition handleTyping :: "socket_data \<Rightarrow> fsi_state \<Rightarrow> fsi_state" where
  "handleTyping d s = s\<lparr>fsi_isTyping := (status d = Some ''start'')\<rparr>"

definition handleError :: "socket_data \<Rightarrow> fsi_state \<Rightarrow> fsi_state" where
  "handleError d s =
     addMessage (listener_chatMode s) (listener_aiPersonality s)
       (Some (''Sorry, I encountered an error: '' @ or_else (data_error d) ''Unknown error''
              @ ''. Please try again.''))
       ''future-self'' ((clear_current s)\<lparr>fsi_isTyping := False\<rparr>)"

definition handleDisconnect :: "fsi_state \<Rightarrow> fsi_state" where
  "handleDisconnect s = (clear_current s)\<lparr>fsi_isTyping := False\<rparr>"

text \<open>The listeners registered when the \<^verbatim>\<open>socket\<close> prop is set, by event name; the library
  keeps the \<^verbatim>\<open>connected\<close> flag.\<close>

definition fsi_deliver :: "string \<Rightarrow> socket_data \<Rightarrow> fsi_state \<Rightarrow> fsi_state" where
  "fsi_deliver ev d s =
     (if socket s = None then s
      else if ev = ''receive_message'' then handleReceiveMessage d s
      else if ev = ''typing'' then handleTyping d s
      else if ev = ''error'' then handleError d s
      else if ev = ''connect'' then s\<lparr>socket := Some True\<rparr>
      else if ev = ''disconnect'' then (handleDisconnect s)\<lparr>socket := Some False\<rparr>
      else s)"

text \<open>
  \<^verbatim>\<open>sendMessage\<close>. \<open>wait\<close> and \<open>pick\<close> stand for the two \<^verbatim>\<open>Math.random()\<close> draws of the branch
  without a connected socket: the delay in ms (1000 to 3000) and the index of the reply.
\<close>

definition sendMessage :: "fsi_props \<Rightarrow> nat \<Rightarrow> nat \<Rightarrow> fsi_state \<Rightarrow> fsi_state" where
  "sendMessage pr wait pick s =
     (if trim (messageInput s) = [] then s
      else
        let s1 = addMessage (chatMode s) (aiPersonality s) (Some (messageInput s)) ''user'' s;
            s2 = (if socket s1 = Some True
                  then
                    let s3 = s1\<lparr>fsi_isTyping := True\<rparr>;
                        (timeoutId, s4) = setTimeout ResponseTimeout 20000 s3;
                        s5 = s4\<lparr>currentTimeoutId := Some timeoutId\<rparr>;
                        (checkTimeout, s6) = setTimeout CheckWaiting 5000 s5;
                        s7 = s6\<lparr>checkTimeoutId := Some checkTimeout\<rparr>
                    in s7\<lparr>emitted := emitted s7 @
                            [SocketEmit ''message''
                               [(''session_id'', fp_sessionId pr),
                                (''message'', Some (messageInput s)),
                                (''conversation_id'', fp_conversationId pr),
                                (''career'', fp_selectedCareer pr),
                                (''chat_mode'', Some (chatMode s)),
                                (''ai_personality'', Some (aiPersonality s))]]\<rparr>
                  else
                    snd (setTimeout (FallbackReply (fallback_responses ! (pick mod 4))) wait
                           (s1\<lparr>fsi_isTyping := True\<rparr>)))
        in s2\<lparr>messageInput := []\<rparr>)"

definition clearChat :: "fsi_state \<Rightarrow> fsi_state" where
  "clearChat s = s\<lparr>fsi_messages := [], messageHistory := [], messageCount := 0\<rparr>"

text \<open>The callback of a timer, with the chat mode and personality it closed over.\<close>

fun run_timer :: "timer_action \<Rightarrow> string \<Rightarrow> string \<Rightarrow> fsi_state \<Rightarrow> fsi_state" where
  "run_timer ResponseTimeout mode personality s =
     addMessage mode personality (Some timeout_text) ''future-self'' (s\<lparr>fsi_isTyping := False\<rparr>)"
| "run_timer CheckWaiting mode personality s = s"
| "run_timer (FallbackReply r) mode personality s =
     (addMessage mode personality (Some r) ''future-self'' s)\<lparr>fsi_isTyping := False\<rparr>"

text \<open>
  Time passes until \<open>t\<close>: the browser runs the callbacks of the pending timers that are due
  by then, earliest first (in the order of their creation when due together), each at its
  due time, and the clock ends at \<open>t\<close>.
\<close>

definition fire :: "fsi_state \<Rightarrow> timer \<Rightarrow> fsi_state" where
  "fire s t = run_timer (action t) (timer_chatMode t) (timer_aiPersonality t)
                (s\<lparr>clock := max (clock s) (due t)\<rparr>)"

definition advance :: "nat \<Rightarrow> fsi_state \<Rightarrow> fsi_state" where
  "advance t s =
     (let ready = sort_key due (filter (\<lambda>x. due x \<le> t) (timers s));
          s1 = s\<lparr>timers := filter (\<lambda>x. \<not> due x \<le> t) (timers s)\<rparr>;
          s2 = foldl fire s1 ready
      in s2\<lparr>clock := max (clock s2) t\<rparr>)"

datatype fsi_event =
    Typed string
  | ModeSelected string
  | PersonalitySelected string
  | SendClicked nat nat
  | FromSocket string socket_data
  | TimePasses nat
  | ClearClicked

fun fsi_step :: "fsi_props \<Rightarrow> fsi_event \<Rightarrow> fsi_state \<Rightarrow> fsi_state" where
  "fsi_step pr (Typed t) s = s\<lparr>messageInput := t\<rparr>"
| "fsi_step pr (ModeSelected m) s = s\<lparr>chatMode := m\<rparr>"
| "fsi_step pr (PersonalitySelected p) s = s\<lparr>aiPersonality := p\<rparr>"
| "fsi_step pr (SendClicked wait pick) s = sendMessage pr wait pick s"
| "fsi_step pr (FromSocket ev d) s = fsi_deliver ev d s"
| "fsi_step pr (TimePasses t) s = advance t s"
| "fsi_step pr ClearClicked s = clearChat s"

definition fsi_run :: "fsi_props \<Rightarrow> fsi_event list \<Rightarrow> fsi_state \<Rightarrow> fsi_state" where
  "fsi_run pr es s = foldl (\<lambda>st e. fsi_step pr e st) s es"

text \<open>What the conversation shows: sender and text of each entry.\<close>

definition transcript :: "fsi_state \<Rightarrow> (string \<times> string option) list" where
  "transcript s = map (\<lambda>m. (sender m, message m)) (fsi_messages s)"

section \<open>Auxiliary definitions and example values\<close>

text \<open>What a fallback request adds to the history: the reply of a successful response with
  a text, nothing otherwise.\<close>

definition http_reply :: "http_outcome \<Rightarrow> nat \<Rightarrow> chat_message list" where
  "http_reply outcome later =
     (case outcome of
        HttpResponse r \<Rightarrow>
          if chat_success r \<and> truthy (chat_reply r)
          then [\<lparr>role = ''assistant'', content = chat_reply r, timestamp = later\<rparr>] else []
      | HttpFailure e \<Rightarrow> [])"

definition ann :: persona where
  "ann = \<lparr>name = Some ''Ann'', current_role = Some ''Surgeon'', career_path = Some ''doctor''\<rparr>"

definition with_session :: chat_props where
  "with_session = \<lparr>p_sessionId = Some ''s1'', p_persona = Some ann\<rparr>"

definition without_session :: chat_props where
  "without_session = \<lparr>p_sessionId = None, p_persona = None\<rparr>"

definition network_down :: http_outcome where
  "network_down = HttpFailure \<lparr>err_code = None, response_data_error = None,
     err_message = Some ''Network Error''\<rparr>"

definition replied :: http_outcome where
  "replied = HttpResponse \<lparr>chat_success = True, chat_reply = Some ''Keep going.'',
     chat_error = None\<rparr>"

definition analysis_ok :: resume_response where
  "analysis_ok = \<lparr>success = True, session_id = Some ''s1'', rr_persona = Some ann,
     rr_error = None\<rparr>"

definition at_resume :: app_state where
  "at_resume = \<lparr>currentStep = ''resume'', sessionId = Some ''s1'',
     resumeAnalysis = Some analysis_ok, persona = Some ann, isLoading = False,
     app_error = None\<rparr>"

definition socket_reply :: "string \<Rightarrow> socket_data" where
  "socket_reply t = \<lparr>response = Some t, status = None, data_error = None,
     data_message = Some t\<rparr>"

definition fsi_example_props :: fsi_props where
  "fsi_example_props = \<lparr>fp_sessionId = Some ''s1'', fp_conversationId = Some ''c1'',
     fp_selectedCareer = Some ''doctor''\<rparr>"

text \<open>Two messages sent one second apart over a connected socket, both answered within
  three seconds of the first, and then the clock reaching 20 s.\<close>

definition two_in_flight :: "fsi_event list" where
  "two_in_flight =
     [Typed ''a'', SendClicked 0 0,
      TimePasses 1000, Typed ''b'', SendClicked 0 0,
      TimePasses 2000, FromSocket ''receive_message'' (socket_reply ''reply one''),
      TimePasses 3000, FromSocket ''receive_message'' (socket_reply ''reply two''),
      TimePasses 20000]"

definition pdf_file :: upload_file where
  "pdf_file = \<lparr>file_type = ''application/pdf'', file_size = 2048\<rparr>"

definition png_file :: upload_file where
  "png_file = \<lparr>file_type = ''image/png'', file_size = 2048\<rparr>"

definition upload_initial :: upload_state where
  "upload_initial = \<lparr>up_resumeAnalysis = None, isAnalyzing = False, dragActive = False,
     uploadProgress = 0, up_error = None, progressInterval = False, up_effects = []\<rparr>"

section \<open>Properties of the chat component\<close>

text \<open>Blank and non-blank messages: a space, a no-break space (U+00A0), and a line feed
  followed by an ideographic space (U+3000) and a line separator (U+2028) are blank; a
  word is not, and white space around a word is stripped.\<close>

lemma blank_space: "blank '' ''"
  by (simp add: blank_def trim_def is_ws_def ws_tokens_def)

lemma blank_nbsp: "blank [CHR 0xC2, CHR 0xA0]"
  by (simp add: blank_def trim_def is_ws_def ws_tokens_def)

lemma blank_mixed:
  "blank [CHR 0x0A, CHR 0xE3, CHR 0x80, CHR 0x80, CHR 0xE2, CHR 0x80, CHR 0xA8]"
  by (simp add: blank_def trim_def is_ws_def ws_tokens_def)

lemma not_blank_hello: "\<not> blank ''hello''"
  by (simp add: blank_def trim_def is_ws_def ws_tokens_def)

lemma trim_padded: "trim ([CHR 0xC2, CHR 0xA0] @ '' hi '' @ [CHR 0xEF, CHR 0xBB, CHR 0xBF]) = ''hi''"
  by (simp add: trim_def is_ws_def ws_tokens_def)

lemma trim_a: "trim ''a'' = ''a''"
  by (simp add: trim_def is_ws_def ws_tokens_def)

lemma trim_b: "trim ''b'' = ''b''"
  by (simp add: trim_def is_ws_def ws_tokens_def)


text \<open>
  Claim C1. Sending a chat message that has a character other than white space while no
  session exists shows the error \<^verbatim>\<open>Session not found. Please upload your resume first.\<close> and
  returns: nothing is appended to the message list, the typing indicator is not touched,
  and no socket emit or HTTP request is made. \<^verbatim>\<open>handleSendMessage\<close> tests the message first
  and the session second: a blank message leaves the whole state as it was, so it sets no
  error, with or without a session.
\<close>

theorem missing_session_error:
  "(\<not> truthy (p_sessionId pr) \<and> \<not> blank msg \<longrightarrow>
     error_banner (handleSendMessage pr now msg outcome later s)
       = Some ''Session not found. Please upload your resume first.''
   \<and> messages (handleSendMessage pr now msg outcome later s) = messages s
   \<and> isTyping (handleSendMessage pr now msg outcome later s) = isTyping s
   \<and> effects (handleSendMessage pr now msg outcome later s) = effects s)
   \<and> (blank msg \<longrightarrow> handleSendMessage pr now msg outcome later s = s)"
  by (simp add: handleSendMessage_def error_banner_def truthy_def)

theorem missing_session_error_witness:
  "\<not> truthy (p_sessionId without_session) \<and> \<not> blank ''hello''
   \<and> error_banner (handleSendMessage without_session 7 ''hello'' network_down 9 chat_initial)
     = Some ''Session not found. Please upload your resume first.''
   \<and> messages (handleSendMessage without_session 7 ''hello'' network_down 9 chat_initial) = []
   \<and> isTyping (handleSendMessage without_session 7 ''hello'' network_down 9 chat_initial) = False
   \<and> effects (handleSendMessage without_session 7 ''hello'' network_down 9 chat_initial) = []
   \<and> blank [CHR 0xC2, CHR 0xA0]
   \<and> handleSendMessage without_session 7 [CHR 0xC2, CHR 0xA0] network_down 9 chat_initial
       = chat_initial"
  using missing_session_error [of without_session "''hello''" 7 network_down 9 chat_initial]
    missing_session_error [of without_session "[CHR 0xC2, CHR 0xA0]" 7 network_down 9
      chat_initial]
  by (simp add: truthy_def not_blank_hello blank_nbsp chat_initial_def without_session_def)

text \<open>
  A message of one space, sent without a session: the handler returns at its first test
  and no error is shown.
\<close>

theorem blank_message_no_error:
  "error_banner (handleSendMessage without_session 7 '' '' network_down 9 chat_initial) = None"
  by (simp add: handleSendMessage_def blank_space chat_initial_def error_banner_def truthy_def)

subsection \<open>The message history\<close>

lemma truthy_or_else: "truthy (Some (or_else v d)) = (truthy v \<or> d \<noteq> [])"
  by (auto simp: truthy_def or_else_def split: option.splits)

lemma messages_deliver:
  "messages (deliver pr now ev d s) =
     messages s @ (if ev = ''ai_response''
                   then [\<lparr>role = ''assistant'', content = response d, timestamp = now\<rparr>] else [])"
  by (simp add: deliver_def on_connect_def on_disconnect_def on_connect_error_def
      on_ai_response_def on_typing_def on_error_def Let_def)

lemma messages_handleSendError: "messages (handleSendError e s) = messages s"
  by (simp add: handleSendError_def)

lemma messages_sendViaHttp:
  "messages (sendViaHttp pr msg outcome later s) = messages s @ http_reply outcome later"
  by (cases outcome) (simp_all add: sendViaHttp_def http_reply_def handleSendError_def Let_def)

lemma messages_handleSendMessage:
  "messages (handleSendMessage pr now msg outcome later s) =
     (if blank msg \<or> \<not> truthy (p_sessionId pr) then messages s
      else messages s @ \<lparr>role = ''user'', content = Some msg, timestamp = now\<rparr>
             # (if socketRef s = Some True then [] else http_reply outcome later))"
  by (simp add: handleSendMessage_def Let_def messages_sendViaHttp)

lemma roles_ok_http_reply: "roles_ok (http_reply outcome later)"
  by (cases outcome) (simp_all add: http_reply_def roles_ok_def)

lemma http_reply_assistant:
  "list_all (\<lambda>m. role m = ''assistant'') (http_reply outcome later)"
  by (cases outcome) (simp_all add: http_reply_def)

lemma http_reply_length: "length (http_reply outcome later) \<le> 1"
  by (cases outcome) (simp_all add: http_reply_def)

lemma chat_step_appends:
  "\<exists>ms. messages (chat_step pr now e s) = messages s @ ms \<and> roles_ok ms"
proof (cases e)
  case (SocketEvent ev d)
  then show ?thesis by (simp add: messages_deliver roles_ok_def)
next
  case (Send msg outcome later)
  then show ?thesis
    using roles_ok_http_reply [of outcome later]
    by (simp add: messages_handleSendMessage roles_ok_def)
qed (simp_all add: socket_loaded_def socket_load_failed_def banner_close_def roles_ok_def)

text \<open>
  Claim C7. Every entry of the chat history is a record of role, content and timestamp
  whose role is \<^verbatim>\<open>'user'\<close> or \<^verbatim>\<open>'assistant'\<close>, and the history only grows at its end: every
  operation of the component leaves the earlier entries in place and in order and adds
  entries with one of the two roles. Sending a message that is not blank while a session
  exists appends exactly one user entry (followed, on the HTTP path, by at most one
  assistant entry for the reply, and by nothing over a connected socket); sending a blank
  message, or any message without a session, appends nothing; and each reply received on
  the socket appends exactly one assistant entry. The history the component starts with
  has the two roles only.
\<close>

theorem history_append_only:
  "(\<exists>ms. messages (chat_step pr now e s) = messages s @ ms \<and> roles_ok ms)
   \<and> (\<not> blank msg \<and> truthy (p_sessionId pr) \<longrightarrow>
        (\<exists>replies. messages (handleSendMessage pr now msg outcome later s)
             = messages s @ \<lparr>role = ''user'', content = Some msg, timestamp = now\<rparr> # replies
           \<and> list_all (\<lambda>m. role m = ''assistant'') replies
           \<and> length replies \<le> 1
           \<and> (socketRef s = Some True \<longrightarrow> replies = [])))
   \<and> (blank msg \<or> \<not> truthy (p_sessionId pr) \<longrightarrow>
        messages (handleSendMessage pr now msg outcome later s) = messages s)
   \<and> messages (deliver pr now ''ai_response'' d s)
        = messages s @ [\<lparr>role = ''assistant'', content = response d, timestamp = now\<rparr>]
   \<and> roles_ok (messages (chat_mount pr now))"
proof (intro conjI impI)
  show "\<exists>ms. messages (chat_step pr now e s) = messages s @ ms \<and> roles_ok ms"
    by (rule chat_step_appends)
next
  assume "\<not> blank msg \<and> truthy (p_sessionId pr)"
  then have m: "messages (handleSendMessage pr now msg outcome later s)
      = messages s @ \<lparr>role = ''user'', content = Some msg, timestamp = now\<rparr>
          # (if socketRef s = Some True then [] else http_reply outcome later)"
    by (simp add: messages_handleSendMessage)
  with http_reply_assistant [of outcome later] http_reply_length [of outcome later]
  show "\<exists>replies. messages (handleSendMessage pr now msg outcome later s)
             = messages s @ \<lparr>role = ''user'', content = Some msg, timestamp = now\<rparr> # replies
           \<and> list_all (\<lambda>m. role m = ''assistant'') replies
           \<and> length replies \<le> 1
           \<and> (socketRef s = Some True \<longrightarrow> replies = [])"
    by auto
next
  assume "blank msg \<or> \<not> truthy (p_sessionId pr)"
  then show "messages (handleSendMessage pr now msg outcome later s) = messages s"
    by (simp add: messages_handleSendMessage)
next
  show "messages (deliver pr now ''ai_response'' d s)
        = messages s @ [\<lparr>role = ''assistant'', content = response d, timestamp = now\<rparr>]"
    by (simp add: messages_deliver)
next
  show "roles_ok (messages (chat_mount pr now))"
    by (simp add: chat_mount_def chat_initial_def roles_ok_def Let_def split: option.splits)
qed

theorem history_append_only_witness:
  "\<not> blank ''hello'' \<and> truthy (p_sessionId with_session)
   \<and> socketRef (socket_loaded chat_initial) \<noteq> Some True
   \<and> messages (handleSendMessage with_session 7 ''hello'' replied 9 (socket_loaded chat_initial))
       = [\<lparr>role = ''user'', content = Some ''hello'', timestamp = 7\<rparr>,
          \<lparr>role = ''assistant'', content = Some ''Keep going.'', timestamp = 9\<rparr>]
   \<and> socketRef (on_connect with_session (socket_loaded chat_initial)) = Some True
   \<and> messages (handleSendMessage with_session 7 ''hello'' replied 9
        (on_connect with_session (socket_loaded chat_initial)))
       = [\<lparr>role = ''user'', content = Some ''hello'', timestamp = 7\<rparr>]
   \<and> blank [CHR 0xC2, CHR 0xA0]
   \<and> messages (handleSendMessage with_session 7 [CHR 0xC2, CHR 0xA0] replied 9
        (socket_loaded chat_initial)) = []"
  using history_append_only [of with_session 7 "Send ''hello'' replied 9"
      "socket_loaded chat_initial" "''hello''" replied 9 "socket_reply ''x''"]
    history_append_only [of with_session 7 "Send ''hello'' replied 9"
      "on_connect with_session (socket_loaded chat_initial)" "''hello''" replied 9
      "socket_reply ''x''"]
    history_append_only [of with_session 7 "Send ''hello'' replied 9"
      "socket_loaded chat_initial" "[CHR 0xC2, CHR 0xA0]" replied 9 "socket_reply ''x''"]
  by (simp add: not_blank_hello blank_nbsp truthy_def with_session_def
      messages_handleSendMessage http_reply_def replied_def socket_loaded_def chat_initial_def
      on_connect_def)

text \<open>
  Two sends of a message that is not the empty string, after which the history is still
  empty: one space with a session, and \<^verbatim>\<open>hello\<close> without a session.
\<close>

theorem nonempty_send_appends_nothing:
  "'' '' \<noteq> []
   \<and> messages (handleSendMessage with_session 7 '' '' replied 9 chat_initial) = []
   \<and> messages (handleSendMessage without_session 7 ''hello'' replied 9 chat_initial) = []"
  by (simp add: messages_handleSendMessage blank_space not_blank_hello truthy_def
      with_session_def without_session_def chat_initial_def)

subsection \<open>The HTTP fallback\<close>

lemma handleSendError_banner: "error_banner (handleSendError e s) \<noteq> None"
  by (simp add: handleSendError_def error_banner_def truthy_def split: option.splits)

lemma handleSendError_typing: "isTyping (handleSendError e s) = False"
  by (simp add: handleSendError_def)

text \<open>
  Claim C10. For every chat message that is not blank, sent while a session exists and the
  socket is not connected, the component posts the message and the session id to the chat
  endpoint with a timeout of 15000 ms. A response with \<^verbatim>\<open>success\<close> and a reply text appends
  the user entry and exactly one assistant entry and shows no error; a response without
  them, and a failed request, append the user entry only and show an error; in every case
  the typing indicator ends cleared. A blank message sends nothing.
\<close>

theorem http_fallback:
  "(\<not> blank msg \<and> truthy (p_sessionId pr) \<and> socketRef s \<noteq> Some True \<longrightarrow>
     effects (handleSendMessage pr now msg outcome later s)
       = effects s @ HttpPost ''http://localhost:5000/api/chat''
                       [(''message'', Some msg), (''session_id'', p_sessionId pr)] 15000
                     # (case outcome of HttpResponse r \<Rightarrow> [] | HttpFailure e \<Rightarrow> [ClearErrorAfter 5000])
   \<and> isTyping (handleSendMessage pr now msg outcome later s) = False
   \<and> (case outcome of
         HttpResponse r \<Rightarrow>
           if chat_success r \<and> truthy (chat_reply r)
           then messages (handleSendMessage pr now msg outcome later s)
                  = messages s @ [\<lparr>role = ''user'', content = Some msg, timestamp = now\<rparr>,
                                  \<lparr>role = ''assistant'', content = chat_reply r, timestamp = later\<rparr>]
                \<and> error_banner (handleSendMessage pr now msg outcome later s) = None
           else messages (handleSendMessage pr now msg outcome later s)
                  = messages s @ [\<lparr>role = ''user'', content = Some msg, timestamp = now\<rparr>]
                \<and> error_banner (handleSendMessage pr now msg outcome later s) \<noteq> None
       | HttpFailure e \<Rightarrow>
           messages (handleSendMessage pr now msg outcome later s)
             = messages s @ [\<lparr>role = ''user'', content = Some msg, timestamp = now\<rparr>]
           \<and> error_banner (handleSendMessage pr now msg outcome later s) \<noteq> None))
   \<and> (blank msg \<longrightarrow> effects (handleSendMessage pr now msg outcome later s) = effects s)"
proof (rule conjI)
  show "blank msg \<longrightarrow> effects (handleSendMessage pr now msg outcome later s) = effects s"
    by (simp add: handleSendMessage_def)
next
  show "\<not> blank msg \<and> truthy (p_sessionId pr) \<and> socketRef s \<noteq> Some True \<longrightarrow>
     effects (handleSendMessage pr now msg outcome later s)
       = effects s @ HttpPost ''http://localhost:5000/api/chat''
                       [(''message'', Some msg), (''session_id'', p_sessionId pr)] 15000
                     # (case outcome of HttpResponse r \<Rightarrow> [] | HttpFailure e \<Rightarrow> [ClearErrorAfter 5000])
   \<and> isTyping (handleSendMessage pr now msg outcome later s) = False
   \<and> (case outcome of
         HttpResponse r \<Rightarrow>
           if chat_success r \<and> truthy (chat_reply r)
           then messages (handleSendMessage pr now msg outcome later s)
                  = messages s @ [\<lparr>role = ''user'', content = Some msg, timestamp = now\<rparr>,
                                  \<lparr>role = ''assistant'', content = chat_reply r, timestamp = later\<rparr>]
                \<and> error_banner (handleSendMessage pr now msg outcome later s) = None
           else messages (handleSendMessage pr now msg outcome later s)
                  = messages s @ [\<lparr>role = ''user'', content = Some msg, timestamp = now\<rparr>]
                \<and> error_banner (handleSendMessage pr now msg outcome later s) \<noteq> None
       | HttpFailure e \<Rightarrow>
           messages (handleSendMessage pr now msg outcome later s)
             = messages s @ [\<lparr>role = ''user'', content = Some msg, timestamp = now\<rparr>]
           \<and> error_banner (handleSendMessage pr now msg outcome later s) \<noteq> None)"
  proof (cases outcome)
    case (HttpResponse r)
    then show ?thesis
      by (simp add: handleSendMessage_def sendViaHttp_def Let_def API_URL_def error_banner_def
          truthy_or_else)
  next
    case (HttpFailure e)
    then show ?thesis
      using handleSendError_banner
      by (simp add: handleSendMessage_def sendViaHttp_def Let_def API_URL_def
          handleSendError_typing messages_handleSendError)
         (simp add: handleSendError_def)
  qed
qed

theorem http_fallback_witness:
  "\<not> blank ''hello'' \<and> truthy (p_sessionId with_session) \<and> socketRef chat_initial \<noteq> Some True
   \<and> effects (handleSendMessage with_session 7 ''hello'' replied 9 chat_initial)
       = [HttpPost ''http://localhost:5000/api/chat''
            [(''message'', Some ''hello''), (''session_id'', Some ''s1'')] 15000]
   \<and> isTyping (handleSendMessage with_session 7 ''hello'' replied 9 chat_initial) = False
   \<and> messages (handleSendMessage with_session 7 ''hello'' replied 9 chat_initial)
       = [\<lparr>role = ''user'', content = Some ''hello'', timestamp = 7\<rparr>,
          \<lparr>role = ''assistant'', content = Some ''Keep going.'', timestamp = 9\<rparr>]
   \<and> isTyping (handleSendMessage with_session 7 ''hello'' network_down 9 chat_initial) = False
   \<and> error_banner (handleSendMessage with_session 7 ''hello'' network_down 9 chat_initial) \<noteq> None
   \<and> blank [CHR 0xC2, CHR 0xA0]
   \<and> effects (handleSendMessage with_session 7 [CHR 0xC2, CHR 0xA0] replied 9 chat_initial) = []"
  using http_fallback [of "''hello''" with_session chat_initial 7 replied 9]
    http_fallback [of "''hello''" with_session chat_initial 7 network_down 9]
    http_fallback [of "[CHR 0xC2, CHR 0xA0]" with_session chat_initial 7 replied 9]
  by (simp add: not_blank_hello blank_nbsp truthy_def with_session_def chat_initial_def
      replied_def network_down_def)

text \<open>
  A message of one space is not the empty string; sent with a session and without a
  socket, it causes no request at all.
\<close>

theorem blank_message_no_request:
  "'' '' \<noteq> [] \<and> truthy (p_sessionId with_session) \<and> socketRef chat_initial \<noteq> Some True
   \<and> effects (handleSendMessage with_session 7 '' '' replied 9 chat_initial) = []"
  by (simp add: handleSendMessage_def blank_space truthy_def
      with_session_def chat_initial_def)

subsection \<open>Socket events\<close>

text \<open>
  Claim C8. For every socket \<^verbatim>\<open>error\<close> event the component stores the event's message, or
  \<^verbatim>\<open>An error occurred. Please try again.\<close> when the event carries none (or an empty one), as
  the displayed error; the banner shows that text, its close button removes it, the typing
  indicator is cleared, and the history is untouched.
\<close>

theorem socket_error_banner:
  "error_banner (deliver pr now ''error'' d s)
     = Some (case data_error d of
               None \<Rightarrow> ''An error occurred. Please try again.''
             | Some m \<Rightarrow> if m = [] then ''An error occurred. Please try again.'' else m)
   \<and> isTyping (deliver pr now ''error'' d s) = False
   \<and> messages (deliver pr now ''error'' d s) = messages s
   \<and> error_banner (banner_close (deliver pr now ''error'' d s)) = None"
  by (simp add: deliver_def on_error_def error_banner_def banner_close_def truthy_def
      or_else_def split: option.splits)

text \<open>
  Claim C3. The chat component (FuturisticChat) receives replies on the socket event
  \<^verbatim>\<open>ai_response\<close>: every such event appends the event's \<^verbatim>\<open>response\<close> as one assistant entry
  and stops the typing indicator, while an event named \<^verbatim>\<open>receive_message\<close> has no listener
  there and changes nothing. The tabbed interface (FutureSelfInterface) is the component
  that listens to \<^verbatim>\<open>receive_message\<close>: with a socket, every such event appends exactly one
  entry, of sender \<^verbatim>\<open>future-self\<close> and with the event's \<^verbatim>\<open>message\<close> as text, and stops the
  typing indicator.
\<close>

theorem reply_events:
  "messages (deliver pr now ''ai_response'' d s)
     = messages s @ [\<lparr>role = ''assistant'', content = response d, timestamp = now\<rparr>]
   \<and> isTyping (deliver pr now ''ai_response'' d s) = False
   \<and> deliver pr now ''receive_message'' d s = s
   \<and> (socket f \<noteq> None \<longrightarrow>
        transcript (fsi_deliver ''receive_message'' d f)
          = transcript f @ [(''future-self'', data_message d)]
        \<and> fsi_isTyping (fsi_deliver ''receive_message'' d f) = False)"
  by (simp add: deliver_def on_ai_response_def fsi_deliver_def handleReceiveMessage_def
      addMessage_def clear_current_def clear_check_def clearTimeout_def Let_def transcript_def)

theorem reply_events_witness:
  "socket (fsi_initial (Some True)) \<noteq> None
   \<and> transcript (fsi_deliver ''receive_message'' (socket_reply ''hi'') (fsi_initial (Some True)))
       = [(''future-self'', Some ''hi'')]
   \<and> fsi_isTyping (fsi_deliver ''receive_message'' (socket_reply ''hi'') (fsi_initial (Some True)))
       = False"
  using reply_events [of with_session 7 "socket_reply ''hi''" chat_initial
      "fsi_initial (Some True)"]
  by (simp add: fsi_initial_def socket_reply_def transcript_def)

text \<open>
  A \<^verbatim>\<open>receive_message\<close> event delivered to the chat component while it waits for a reply:
  the history stays empty and the typing indicator stays on.
\<close>

theorem receive_message_ignored:
  "messages (deliver with_session 7 ''receive_message'' (socket_reply ''hi'')
       (chat_initial\<lparr>isTyping := True\<rparr>)) = []
   \<and> isTyping (deliver with_session 7 ''receive_message'' (socket_reply ''hi'')
       (chat_initial\<lparr>isTyping := True\<rparr>)) = True"
  by (simp add: deliver_def chat_initial_def)

section \<open>Properties of the application shell\<close>

text \<open>
  Claim C5. The wizard's steps are, in order, \<^verbatim>\<open>welcome\<close>, \<^verbatim>\<open>resume\<close>, \<^verbatim>\<open>dashboard\<close> and
  \<^verbatim>\<open>chat\<close>. From a step that has a successor, \<^verbatim>\<open>handleNext\<close> moves to the successor when
  the step's data is present (a resume analysis at \<^verbatim>\<open>resume\<close>, a session id and a persona at
  \<^verbatim>\<open>dashboard\<close>); at the last step, and when the data is missing, it changes nothing.
  \<^verbatim>\<open>handleBack\<close> moves to the predecessor, and to \<^verbatim>\<open>welcome\<close> from the first step.
\<close>

theorem wizard_navigation:
  "(next_in_sequence wizard_steps (currentStep s) = Some n \<and> step_data_present s
      \<longrightarrow> currentStep (handleNext s) = n)
   \<and> (next_in_sequence wizard_steps (currentStep s) = None \<or> \<not> step_data_present s
      \<longrightarrow> handleNext s = s)
   \<and> (prev_in_sequence wizard_steps (currentStep s) = Some p
      \<longrightarrow> currentStep (handleBack s) = p)
   \<and> (prev_in_sequence wizard_steps (currentStep s) = None
      \<longrightarrow> currentStep (handleBack s) = ''welcome'')"
  by (auto simp: wizard_steps_def handleNext_def handleBack_def step_data_present_def
      split: if_splits)

theorem wizard_navigation_witness:
  "next_in_sequence wizard_steps (currentStep at_resume) = Some ''dashboard''
   \<and> step_data_present at_resume
   \<and> currentStep (handleNext at_resume) = ''dashboard''
   \<and> prev_in_sequence wizard_steps (currentStep at_resume) = Some ''welcome''
   \<and> currentStep (handleBack at_resume) = ''welcome''
   \<and> next_in_sequence wizard_steps (currentStep (at_resume\<lparr>currentStep := ''chat''\<rparr>)) = None
   \<and> handleNext (at_resume\<lparr>currentStep := ''chat''\<rparr>) = at_resume\<lparr>currentStep := ''chat''\<rparr>
   \<and> prev_in_sequence wizard_steps (currentStep app_init) = None
   \<and> currentStep (handleBack app_init) = ''welcome''"
  using wizard_navigation [of at_resume "''dashboard''" "''welcome''"]
    wizard_navigation [of "at_resume\<lparr>currentStep := ''chat''\<rparr>" "''x''" "''dashboard''"]
    wizard_navigation [of app_init "''resume''" "''x''"]
  by (simp add: wizard_steps_def at_resume_def app_init_def step_data_present_def)

text \<open>
  In the specification's sequence the step after \<^verbatim>\<open>resume\<close> is \<^verbatim>\<open>career pick\<close>; with all data
  present, \<^verbatim>\<open>handleNext\<close> goes from \<^verbatim>\<open>resume\<close> to \<^verbatim>\<open>dashboard\<close>.
\<close>

theorem career_pick_step_absent:
  "next_in_sequence spec_wizard_steps ''resume'' = Some ''career pick''
   \<and> currentStep at_resume = ''resume'' \<and> step_data_present at_resume
   \<and> currentStep (handleNext at_resume) = ''dashboard''"
  by (simp add: spec_wizard_steps_def handleNext_def at_resume_def step_data_present_def)

lemma persona_app_step:
  "persona (app_step e a) =
     (case e of
        ResumeUploaded d \<Rightarrow> if success d \<and> truthy (session_id d) then rr_persona d else persona a
      | _ \<Rightarrow> persona a)"
  by (cases e)
     (simp_all add: handleResumeUpload_def handleStartChat_def handleBack_def handleNext_def
        resume_onNext_def navbar_onConnect_def app_dismiss_error_def)

text \<open>
  Claim C6. The stored persona is assigned only by \<^verbatim>\<open>handleResumeUpload\<close>, and only for a
  response with \<^verbatim>\<open>success\<close> and a session id, which stores the response's persona: whenever
  an operation of the shell or of the chat component changes the persona, that operation
  is such an upload. Every other operation (starting the chat, navigating back and forth,
  the navbar, closing the error banner, every chat operation, and an upload response
  without \<^verbatim>\<open>success\<close> or session id) leaves the persona as it was.
\<close>

theorem persona_assigned_only_by_upload:
  "(persona (app (ui_step now ev u)) \<noteq> persona (app u) \<longrightarrow>
      (\<exists>d. ev = AppEvent (ResumeUploaded d) \<and> success d \<and> truthy (session_id d)
            \<and> persona (app (ui_step now ev u)) = rr_persona d))
   \<and> (success r \<and> truthy (session_id r) \<longrightarrow>
        persona (handleResumeUpload r a) = rr_persona r)
   \<and> (\<not> (success r \<and> truthy (session_id r)) \<longrightarrow>
        persona (handleResumeUpload r a) = persona a)"
proof (intro conjI impI)
  assume ch: "persona (app (ui_step now ev u)) \<noteq> persona (app u)"
  show "\<exists>d. ev = AppEvent (ResumeUploaded d) \<and> success d \<and> truthy (session_id d)
            \<and> persona (app (ui_step now ev u)) = rr_persona d"
  proof (cases ev)
    case (AppEvent e)
    have "persona (app (ui_step now (AppEvent e) u)) = persona (app_step e (app u))"
      by (simp add: Let_def)
    with ch AppEvent have "persona (app_step e (app u)) \<noteq> persona (app u)"
      by simp
    then have "\<exists>d. e = ResumeUploaded d \<and> success d \<and> truthy (session_id d)
        \<and> persona (app_step e (app u)) = rr_persona d"
      unfolding persona_app_step by (cases e) (auto split: if_splits)
    with AppEvent show ?thesis
      by (auto simp: Let_def)
  next
    case (ChatEvent e)
    with ch show ?thesis by (simp split: option.splits)
  qed
qed (auto simp: handleResumeUpload_def)

theorem persona_assigned_only_by_upload_witness:
  "persona (app (ui_step 5 (AppEvent (ResumeUploaded analysis_ok)) \<lparr>app = app_init, chat = None\<rparr>))
     \<noteq> persona (app \<lparr>app = app_init, chat = None\<rparr>)
   \<and> success analysis_ok \<and> truthy (session_id analysis_ok)
   \<and> persona (handleResumeUpload analysis_ok app_init) = Some ann
   \<and> \<not> (success (analysis_ok\<lparr>session_id := None\<rparr>)
          \<and> truthy (session_id (analysis_ok\<lparr>session_id := None\<rparr>)))
   \<and> persona (handleResumeUpload (analysis_ok\<lparr>session_id := None\<rparr>) at_resume) = Some ann"
  using persona_assigned_only_by_upload [of 5 "AppEvent (ResumeUploaded analysis_ok)"
      "\<lparr>app = app_init, chat = None\<rparr>" analysis_ok app_init]
    persona_assigned_only_by_upload [of 5 "AppEvent (ResumeUploaded analysis_ok)"
      "\<lparr>app = app_init, chat = None\<rparr>" "analysis_ok\<lparr>session_id := None\<rparr>" at_resume]
  by (simp add: analysis_ok_def app_init_def at_resume_def truthy_def Let_def
      handleResumeUpload_def)

section \<open>Properties of the resume upload component\<close>

text \<open>
  Claim C9. For the file selected in the resume upload component, the request to the
  analyze-resume endpoint is made exactly when the file's MIME type is that of PDF, DOCX or
  plain text and its size is at most \<open>10 * 1024 * 1024\<close> bytes: then one request for that
  file is added; for any other file nothing is sent and an error message is set.
\<close>

theorem upload_validation:
  "(file_type file \<in> {''application/pdf'',
        ''application/vnd.openxmlformats-officedocument.wordprocessingml.document'',
        ''text/plain''} \<and> file_size file \<le> 10 * 1024 * 1024
      \<longrightarrow> analyze_requests (up_effects (handleFileUpload endpoint (file # others) outcome ticks s))
            = analyze_requests (up_effects s) @ [AnalyzeRequest endpoint file ''software_engineer'' 30000])
   \<and> (\<not> (file_type file \<in> {''application/pdf'',
        ''application/vnd.openxmlformats-officedocument.wordprocessingml.document'',
        ''text/plain''} \<and> file_size file \<le> 10 * 1024 * 1024)
      \<longrightarrow> up_effects (handleFileUpload endpoint (file # others) outcome ticks s) = up_effects s
          \<and> truthy (up_error (handleFileUpload endpoint (file # others) outcome ticks s)))"
proof (intro conjI impI)
  assume ok: "file_type file \<in> {''application/pdf'',
        ''application/vnd.openxmlformats-officedocument.wordprocessingml.document'',
        ''text/plain''} \<and> file_size file \<le> 10 * 1024 * 1024"
  then have a: "file_type file \<in> set allowedTypes" "\<not> file_size file > max_file_size"
    by (auto simp: allowedTypes_def max_file_size_def)
  show "analyze_requests (up_effects (handleFileUpload endpoint (file # others) outcome ticks s))
            = analyze_requests (up_effects s) @ [AnalyzeRequest endpoint file ''software_engineer'' 30000]"
    using a
    by (cases outcome)
       (simp_all add: handleFileUpload_def Let_def analyze_requests_def)
next
  assume bad: "\<not> (file_type file \<in> {''application/pdf'',
        ''application/vnd.openxmlformats-officedocument.wordprocessingml.document'',
        ''text/plain''} \<and> file_size file \<le> 10 * 1024 * 1024)"
  then have a: "file_type file \<notin> set allowedTypes \<or> file_size file > max_file_size"
    by (auto simp: allowedTypes_def max_file_size_def)
  then show "up_effects (handleFileUpload endpoint (file # others) outcome ticks s) = up_effects s"
    by (auto simp: handleFileUpload_def)
  from a show "truthy (up_error (handleFileUpload endpoint (file # others) outcome ticks s))"
    by (auto simp: handleFileUpload_def truthy_def)
qed

theorem upload_validation_witness:
  "file_type pdf_file = ''application/pdf'' \<and> file_size pdf_file \<le> 10 * 1024 * 1024
   \<and> analyze_requests (up_effects (handleFileUpload ANALYZE_RESUME [pdf_file]
        (UploadResponse analysis_ok) 3 upload_initial))
       = [AnalyzeRequest ANALYZE_RESUME pdf_file ''software_engineer'' 30000]
   \<and> file_type png_file = ''image/png''
   \<and> up_effects (handleFileUpload ANALYZE_RESUME [png_file]
        (UploadResponse analysis_ok) 3 upload_initial) = []
   \<and> up_error (handleFileUpload ANALYZE_RESUME [png_file]
        (UploadResponse analysis_ok) 3 upload_initial)
       = Some ''Please upload a PDF, DOCX, or TXT file''
   \<and> file_size (pdf_file\<lparr>file_size := 10 * 1024 * 1024 + 1\<rparr>) > 10 * 1024 * 1024
   \<and> up_effects (handleFileUpload ANALYZE_RESUME
        [pdf_file\<lparr>file_size := 10 * 1024 * 1024 + 1\<rparr>]
        (UploadResponse analysis_ok) 3 upload_initial) = []"
  using upload_validation [of pdf_file ANALYZE_RESUME "[]"
      "UploadResponse analysis_ok" 3 upload_initial]
    upload_validation [of png_file ANALYZE_RESUME "[]"
      "UploadResponse analysis_ok" 3 upload_initial]
    upload_validation [of "pdf_file\<lparr>file_size := 10 * 1024 * 1024 + 1\<rparr>"
      ANALYZE_RESUME "[]" "UploadResponse analysis_ok" 3 upload_initial]
  by (simp add: pdf_file_def png_file_def upload_initial_def analyze_requests_def
      handleFileUpload_def allowedTypes_def max_file_size_def)

section \<open>Properties of the tabbed interface's response timeout\<close>

lemmas fsi_defs = fsi_run_def fsi_initial_def sendMessage_def addMessage_def setTimeout_def
  clearTimeout_def handle_set_def clear_current_def clear_check_def handleReceiveMessage_def
  fsi_deliver_def advance_def fire_def transcript_def trim_a trim_b Let_def
  socket_reply_def

text \<open>An entry added by a socket listener carries the chat mode of the render in which
  the listeners were registered, an entry added by \<^verbatim>\<open>sendMessage\<close> the current one.\<close>

lemma reply_keeps_registered_mode:
  "map msg_chatMode (fsi_messages (fsi_run fsi_example_props
       [ModeSelected ''casual'', FromSocket ''receive_message'' (socket_reply ''hi''),
        Typed ''a'', SendClicked 0 0]
       (fsi_initial (Some True))))
     = [''normal'', ''casual'']"
  by (simp add: fsi_run_def fsi_initial_def sendMessage_def addMessage_def setTimeout_def
      clearTimeout_def handle_set_def clear_current_def clear_check_def
      handleReceiveMessage_def fsi_deliver_def trim_a Let_def socket_reply_def)

text \<open>With one message in flight the timeout behaves as intended: left alone it appends
  the canned message at 20 s and clears the typing indicator, and a reply, an error or a
  disconnect before that leaves no response timeout pending.\<close>

lemma single_send_times_out:
  assumes "trim (messageInput s) \<noteq> []" "socket s = Some True" "timers s = []"
  shows "transcript (advance (clock s + 20000) (sendMessage pr wait pick s))
           = transcript s @ [(''user'', Some (messageInput s)), (''future-self'', Some timeout_text)]
         \<and> fsi_isTyping (advance (clock s + 20000) (sendMessage pr wait pick s)) = False"
  using assms
  by (simp add: sendMessage_def addMessage_def setTimeout_def advance_def fire_def
      transcript_def Let_def)

lemma single_send_cancelled:
  assumes "trim (messageInput s) \<noteq> []" "socket s = Some True" "timers s = []"
    "0 < next_timer_id s" "t < clock s + 20000"
    "ev = ''receive_message'' \<or> ev = ''error'' \<or> ev = ''disconnect''"
  shows "ResponseTimeout \<notin> action ` set (timers
           (fsi_deliver ev d (advance t (sendMessage pr wait pick s))))"
  using assms
  by (auto simp: sendMessage_def addMessage_def setTimeout_def advance_def fire_def
      Let_def fsi_deliver_def handleReceiveMessage_def handleError_def handleDisconnect_def
      clear_current_def clear_check_def handle_set_def clearTimeout_def)

text \<open>
  Claim C2. After a message is sent over a connected socket, a reply, an error or a
  disconnect that comes before the 20 s are over is meant to cancel the pending timeout, so
  that the canned message is appended only when nothing came back. \<^verbatim>\<open>sendMessage\<close> keeps
  the timer's handle in the single cell \<^verbatim>\<open>window.currentTimeoutId\<close> and overwrites it on the
  next send without clearing the timer it held. In the run \<open>two_in_flight\<close> both messages
  are answered within three seconds; the reply clears the second timer only, and at 20 s
  the first one appends the canned message after the two replies.
\<close>

theorem overwritten_timeout_fires_after_replies:
  "transcript (fsi_run fsi_example_props two_in_flight (fsi_initial (Some True)))
     = [(''user'', Some ''a''), (''user'', Some ''b''),
        (''future-self'', Some ''reply one''), (''future-self'', Some ''reply two''),
        (''future-self'', Some timeout_text)]"
  by (simp add: fsi_defs two_in_flight_def)

end
